theory Spec2Isabelle
  imports Main "HOL-Library.Word"
begin

section \<open>The device's global state and its external collaborators\<close>

text \<open>
  The three service headers (WiFiService.h, NTPService.h, SchedulerService.h) keep
  their state in file-level variables and talk to four external objects: \<open>WiFi\<close>,
  \<open>timeClient\<close>, \<open>rtc\<close> and \<open>Serial\<close>.  The variables become the fields of one
  record.  Every call made on an external object is appended, in program order, to the
  field \<open>calls\<close>; the value an external query returns is an argument of the modelled
  function, so that a theorem quantifies over everything the collaborator may answer.
\<close>

datatype call =
    WiFi_status
  | WiFi_disconnect
  | WiFi_mode_WIFI_STA
  | WiFi_begin string string
  | WiFi_localIP
  | Serial_println string
  | Serial_println_result
  | TimeClient_begin
  | TimeClient_setTimeOffset int
  | TimeClient_update
  | TimeClient_getEpochTime
  | TimeClient_forceUpdate
  | Rtc_setTime "32 word"
  | Rtc_getTime string
  | Rtc_getSecond
  | Rtc_getMinute
  | Rtc_getHour
  | Rtc_getHour_true
  | Rtc_getDay

text \<open>
  \<open>Serial_println s\<close> prints the literal \<open>s\<close>; \<open>Serial_println_result\<close> prints the value
  returned by the call logged just before it (\<open>WiFi.localIP()\<close>, \<open>rtc.getTime(fmt)\<close>).
  \<open>Rtc_getHour\<close> is \<open>rtc.getHour()\<close> and \<open>Rtc_getHour_true\<close> is \<open>rtc.getHour(true)\<close>.
\<close>

record globals =
  wifissid :: string
  wifipwd :: string
  wifiState :: int
  wifiWaitSecondCounter :: int
  ntpState :: int
  ntpWaitSecondCounter :: int
  ntpAttempts :: "32 word"
  ntpSuccess :: bool
  lastDay :: int
  lastHr :: int
  lastMin :: int
  lastSec :: int
  calls :: "call list"

text \<open>
  The C++ type of every numeric variable above is \<open>int\<close> (32 bits on the target).  The
  state variables only ever hold the constants below and the two wait counters stay
  between 0 and 60 (lemmas \<open>wifi_range_wifiService\<close> and \<open>ntp_range_ntpService\<close>), the
  baselines hold clock fields, so these are mathematical integers.  \<open>ntpAttempts\<close> is
  only ever incremented, so it keeps its width and \<open>+\<close> wraps.  \<open>ntpSuccess\<close> is declared
  \<open>int\<close> and only assigned \<open>true\<close> and \<open>false\<close>.
\<close>

text \<open>What the real-time clock answers to each getter at one instant.\<close>

record rtc_reading =
  getSecond :: int
  getMinute :: int
  getHour :: int
  getHour_true :: int
  getDay :: int

definition issue :: "call \<Rightarrow> globals \<Rightarrow> globals" where
  "issue c g = g\<lparr>calls := calls g @ [c]\<rparr>"

section \<open>WiFiService.h\<close>

abbreviation (input) WIFISTATE_DISCONNECTED :: int where "WIFISTATE_DISCONNECTED \<equiv> 0"
abbreviation (input) WIFISTATE_CONNECTING :: int where "WIFISTATE_CONNECTING \<equiv> 1"
abbreviation (input) WIFISTATE_CONNECTED :: int where "WIFISTATE_CONNECTED \<equiv> 2"
abbreviation (input) WIFISTATE_DISCOWAIT :: int where "WIFISTATE_DISCOWAIT \<equiv> 3"
abbreviation (input) WIFISTATE_ERRORTIMEOUT :: int where "WIFISTATE_ERRORTIMEOUT \<equiv> 4"

abbreviation (input) WIFIWAIT_MAX :: int where "WIFIWAIT_MAX \<equiv> 30"
abbreviation (input) WIFIRECONNECT_MAX :: int where "WIFIRECONNECT_MAX \<equiv> 60"
abbreviation (input) WIFIDISCOWAIT_MAX :: int where "WIFIDISCOWAIT_MAX \<equiv> 10"

definition wifiInit :: "globals \<Rightarrow> globals" where
  "wifiInit g = g\<lparr>wifiState := WIFISTATE_DISCONNECTED, wifiWaitSecondCounter := 0\<rparr>"

definition wifiDisconnect :: "globals \<Rightarrow> globals" where
  "wifiDisconnect g =
     issue (Serial_println ''Wifi disconnect'')
       (issue WiFi_disconnect
         (g\<lparr>wifiState := WIFISTATE_DISCONNECTED, wifiWaitSecondCounter := 0\<rparr>))"

definition wifiConnect :: "globals \<Rightarrow> globals" where
  "wifiConnect g =
     issue (Serial_println ''Wifi connection initiated'')
       (issue (WiFi_begin (wifissid g) (wifipwd g))
         (issue WiFi_mode_WIFI_STA
           (g\<lparr>wifiState := WIFISTATE_CONNECTING, wifiWaitSecondCounter := 0\<rparr>)))"

text \<open>
  \<open>wifiService\<close> is four \<open>if\<close> statements in a row, not an \<open>else if\<close> chain: each one
  tests the state the previous ones left.  \<open>WiFi.status()\<close> is read in the first
  statement (when the state is CONNECTING) and in the third (only when the state is
  CONNECTED, since \<open>&&\<close> short-circuits); \<open>status_a\<close> and \<open>status_b\<close> say whether these
  two reads return \<open>WL_CONNECTED\<close>.
\<close>

definition wifiService :: "bool \<Rightarrow> bool \<Rightarrow> globals \<Rightarrow> globals" where
  "wifiService status_a status_b g0 =
    (let g1 =
       (if wifiState g0 = WIFISTATE_CONNECTING then
          (let g = issue WiFi_status g0 in
           if status_a then
             issue Serial_println_result
               (issue WiFi_localIP
                 (issue (Serial_println ''Wifi connected as '')
                   (g\<lparr>wifiState := WIFISTATE_CONNECTED, wifiWaitSecondCounter := 0\<rparr>)))
           else
             (let g' = g\<lparr>wifiWaitSecondCounter := wifiWaitSecondCounter g + 1\<rparr> in
              if wifiWaitSecondCounter g' \<ge> WIFIWAIT_MAX then
                issue (Serial_println ''WiFi connection timed-out'')
                  (issue WiFi_disconnect
                    (g'\<lparr>wifiState := WIFISTATE_ERRORTIMEOUT, wifiWaitSecondCounter := 0\<rparr>))
              else g'))
        else g0);
      g2 =
       (if wifiState g1 = WIFISTATE_DISCOWAIT then
          (let g = g1\<lparr>wifiWaitSecondCounter := wifiWaitSecondCounter g1 + 1\<rparr> in
           if wifiWaitSecondCounter g \<ge> WIFIDISCOWAIT_MAX then wifiConnect g else g)
        else g1);
      g3 =
       (if wifiState g2 = WIFISTATE_CONNECTED then
          (let g = issue WiFi_status g2 in
           if \<not> status_b then
             (issue (Serial_println ''WiFi disconnect discovered'') g)
               \<lparr>wifiState := WIFISTATE_DISCOWAIT, wifiWaitSecondCounter := 0\<rparr>
           else g)
        else g2);
      g4 =
       (if wifiState g3 = WIFISTATE_ERRORTIMEOUT then
          (let g = g3\<lparr>wifiWaitSecondCounter := wifiWaitSecondCounter g3 + 1\<rparr> in
           if wifiWaitSecondCounter g \<ge> WIFIRECONNECT_MAX then wifiConnect g else g)
        else g3)
     in g4)"

definition wifiIsConnected :: "globals \<Rightarrow> bool" where
  "wifiIsConnected g = (wifiState g = WIFISTATE_CONNECTED)"

text \<open>
  The one-second loop of the sketch: one \<open>wifiService\<close> call per list element, the
  element giving the answers of \<open>WiFi.status()\<close> during that call.
\<close>

fun wifiServiceLoop :: "(bool \<times> bool) list \<Rightarrow> globals \<Rightarrow> globals" where
  "wifiServiceLoop [] g = g"
| "wifiServiceLoop (r # rs) g = wifiServiceLoop rs (wifiService (fst r) (snd r) g)"

text \<open>
  The values the two variables can hold between calls.  \<open>wifiInit\<close>, \<open>wifiConnect\<close> and
  \<open>wifiDisconnect\<close> establish this range and \<open>wifiService\<close> keeps it, so the counter
  never comes near the limits of a 32-bit \<open>int\<close>.
\<close>

definition wifi_range :: "globals \<Rightarrow> bool" where
  "wifi_range g \<longleftrightarrow>
     (wifiState g = WIFISTATE_DISCONNECTED \<and> wifiWaitSecondCounter g = 0) \<or>
     (wifiState g = WIFISTATE_CONNECTING \<and> 0 \<le> wifiWaitSecondCounter g
        \<and> wifiWaitSecondCounter g < WIFIWAIT_MAX) \<or>
     (wifiState g = WIFISTATE_CONNECTED \<and> wifiWaitSecondCounter g = 0) \<or>
     (wifiState g = WIFISTATE_DISCOWAIT \<and> 0 \<le> wifiWaitSecondCounter g
        \<and> wifiWaitSecondCounter g < WIFIDISCOWAIT_MAX) \<or>
     (wifiState g = WIFISTATE_ERRORTIMEOUT \<and> 1 \<le> wifiWaitSecondCounter g
        \<and> wifiWaitSecondCounter g < WIFIRECONNECT_MAX)"

section \<open>SchedulerService.h\<close>

text \<open>
  Each detector reads one field of the clock and compares it with its baseline; the
  argument \<open>r\<close> holds what the clock answers to the getters called during this
  invocation.  The C++ functions return \<open>int\<close> and only ever \<open>true\<close> or \<open>false\<close>.
\<close>

definition dayDetector :: "rtc_reading \<Rightarrow> globals \<Rightarrow> bool \<times> globals" where
  "dayDetector r g0 =
    (let g = issue Rtc_getDay g0; day = getDay r in
     if day = lastDay g then (False, g)
     else if lastDay g = -1 then (False, g\<lparr>lastDay := day\<rparr>)
     else (True, g\<lparr>lastDay := day\<rparr>))"

definition hourDetector :: "rtc_reading \<Rightarrow> globals \<Rightarrow> bool \<times> globals" where
  "hourDetector r g0 =
    (let g = issue Rtc_getHour_true g0; hr = getHour_true r in
     if hr = lastHr g then (False, g)
     else (True, g\<lparr>lastHr := hr\<rparr>))"

definition minuteDetector :: "rtc_reading \<Rightarrow> globals \<Rightarrow> bool \<times> globals" where
  "minuteDetector r g0 =
    (let g = issue Rtc_getMinute g0; zmin = getMinute r in
     if zmin = lastMin g then (False, g)
     else (True, g\<lparr>lastMin := zmin\<rparr>))"

definition secondDetector :: "rtc_reading \<Rightarrow> globals \<Rightarrow> bool \<times> globals" where
  "secondDetector r g0 =
    (let g = issue Rtc_getSecond g0; sec = getSecond r in
     if sec = lastSec g then (False, g)
     else (True, g\<lparr>lastSec := sec\<rparr>))"

text \<open>\<open>schedulerInit\<close> reads the hour with \<open>rtc.getHour()\<close>, \<open>hourDetector\<close> with
  \<open>rtc.getHour(true)\<close>.\<close>

definition schedulerInit :: "rtc_reading \<Rightarrow> globals \<Rightarrow> globals" where
  "schedulerInit r g0 =
    (let g = (issue Rtc_getSecond g0)\<lparr>lastSec := getSecond r\<rparr>;
         g = (issue Rtc_getMinute g)\<lparr>lastMin := getMinute r\<rparr>;
         g = (issue Rtc_getHour g)\<lparr>lastHr := getHour r\<rparr>;
         g = (issue Rtc_getDay g)\<lparr>lastDay := getDay r\<rparr>
     in g)"

text \<open>Repeated calls of one detector, one clock reading per call, collecting the results.\<close>

fun detectorLoop ::
  "(rtc_reading \<Rightarrow> globals \<Rightarrow> bool \<times> globals) \<Rightarrow> rtc_reading list \<Rightarrow> globals
     \<Rightarrow> bool list \<times> globals" where
  "detectorLoop d [] g = ([], g)"
| "detectorLoop d (r # rs) g =
     (let (b, g') = d r g; (bs, g'') = detectorLoop d rs g' in (b # bs, g''))"

section \<open>NTPService.h\<close>

abbreviation (input) NTPSTATE_IDLE :: int where "NTPSTATE_IDLE \<equiv> 0"
abbreviation (input) NTPSTATE_STARTED :: int where "NTPSTATE_STARTED \<equiv> 1"
abbreviation (input) NTPSTATE_COMPLETE :: int where "NTPSTATE_COMPLETE \<equiv> 2"
abbreviation (input) NTPSTATE_TIMEOUTERROR :: int where "NTPSTATE_TIMEOUTERROR \<equiv> 3"
abbreviation (input) NTPWAIT_MAX :: int where "NTPWAIT_MAX \<equiv> 30"

definition ntpInit :: "globals \<Rightarrow> globals" where
  "ntpInit g = g\<lparr>ntpState := NTPSTATE_IDLE, ntpWaitSecondCounter := 0,
                 ntpAttempts := 0, ntpSuccess := False\<rparr>"

text \<open>
  \<open>update\<close> is what \<open>timeClient.update()\<close> returns, \<open>epochTime\<close> what
  \<open>timeClient.getEpochTime()\<close> returns (an \<open>unsigned long\<close>), and \<open>r\<close> what the clock
  answers inside \<open>schedulerInit\<close>.
\<close>

definition ntpService :: "bool \<Rightarrow> 32 word \<Rightarrow> rtc_reading \<Rightarrow> globals \<Rightarrow> globals" where
  "ntpService update epochTime r g0 =
    (if ntpState g0 = NTPSTATE_STARTED then
       (let g = issue TimeClient_update g0 in
        if update then
          (let g = issue TimeClient_getEpochTime g;
               g = issue (Rtc_setTime epochTime) g;
               g = issue (Rtc_getTime ''NTP->RTC=%Y/%m/%d,%H:%M:%S'') g;
               g = issue Serial_println_result g;
               g = schedulerInit r g;
               g = g\<lparr>ntpSuccess := True\<rparr>;
               g = g\<lparr>ntpAttempts := ntpAttempts g + 1\<rparr>
           in g\<lparr>ntpState := NTPSTATE_COMPLETE\<rparr>)
        else
          (let g = issue TimeClient_forceUpdate g;
               g = g\<lparr>ntpWaitSecondCounter := ntpWaitSecondCounter g + 1\<rparr>
           in if ntpWaitSecondCounter g \<ge> NTPWAIT_MAX then
                g\<lparr>ntpState := NTPSTATE_TIMEOUTERROR, ntpSuccess := False\<rparr>
              else g))
     else g0)"

definition ntpStart :: "globals \<Rightarrow> globals" where
  "ntpStart g0 =
    (let g = issue TimeClient_begin g0;
         g = issue (TimeClient_setTimeOffset 0) g
     in g\<lparr>ntpState := NTPSTATE_STARTED, ntpWaitSecondCounter := 0, ntpSuccess := False\<rparr>)"

definition ntpStarted :: "globals \<Rightarrow> bool" where
  "ntpStarted g = (ntpState g = NTPSTATE_STARTED)"

definition ntpComplete :: "globals \<Rightarrow> bool" where
  "ntpComplete g = ntpSuccess g"

text \<open>
  One \<open>ntpService\<close> call per list element; the element gives the answers of the time
  client and of the clock during that call.
\<close>

fun ntpServiceLoop :: "(bool \<times> 32 word \<times> rtc_reading) list \<Rightarrow> globals \<Rightarrow> globals" where
  "ntpServiceLoop [] g = g"
| "ntpServiceLoop (i # is) g =
     ntpServiceLoop is (ntpService (fst i) (fst (snd i)) (snd (snd i)) g)"

definition ntp_range :: "globals \<Rightarrow> bool" where
  "ntp_range g \<longleftrightarrow>
     0 \<le> ntpWaitSecondCounter g \<and> ntpWaitSecondCounter g \<le> NTPWAIT_MAX \<and>
     (ntpState g = NTPSTATE_STARTED \<longrightarrow> ntpWaitSecondCounter g < NTPWAIT_MAX)"

section \<open>The variables at power-on\<close>

text \<open>
  The initialisers of the declarations.  The credentials \<open>wifissid\<close> and \<open>wifipwd\<close> are
  declared by the sketch that includes the headers, so they are parameters here.
\<close>

definition startup :: "string \<Rightarrow> string \<Rightarrow> globals" where
  "startup ssid pwd =
     \<lparr>wifissid = ssid, wifipwd = pwd,
      wifiState = WIFISTATE_DISCONNECTED, wifiWaitSecondCounter = 0,
      ntpState = NTPSTATE_IDLE, ntpWaitSecondCounter = 0, ntpAttempts = 0,
      ntpSuccess = False,
      lastDay = -1, lastHr = -1, lastMin = -1, lastSec = -1,
      calls = []\<rparr>"

section \<open>Properties of the connectivity state machine\<close>

subsection \<open>One call, by the state it starts in\<close>

lemma wifiService_disconnected:
  "wifiState g = WIFISTATE_DISCONNECTED \<Longrightarrow> wifiService a b g = g"
  by (simp add: wifiService_def)

lemma wifiService_connecting_success:
  "wifiState g = WIFISTATE_CONNECTING \<Longrightarrow>
   wifiService True True g =
     g\<lparr>wifiState := WIFISTATE_CONNECTED, wifiWaitSecondCounter := 0,
       calls := calls g @ [WiFi_status, Serial_println ''Wifi connected as '', WiFi_localIP,
                           Serial_println_result, WiFi_status]\<rparr>"
  by (simp add: wifiService_def issue_def Let_def)

lemma wifiService_connecting_success_drop:
  "wifiState g = WIFISTATE_CONNECTING \<Longrightarrow>
   wifiService True False g =
     g\<lparr>wifiState := WIFISTATE_DISCOWAIT, wifiWaitSecondCounter := 0,
       calls := calls g @ [WiFi_status, Serial_println ''Wifi connected as '', WiFi_localIP,
                           Serial_println_result, WiFi_status,
                           Serial_println ''WiFi disconnect discovered'']\<rparr>"
  by (simp add: wifiService_def issue_def Let_def)

lemma wifiService_connecting_wait:
  "wifiState g = WIFISTATE_CONNECTING \<Longrightarrow> wifiWaitSecondCounter g + 1 < WIFIWAIT_MAX \<Longrightarrow>
   wifiService False b g =
     g\<lparr>wifiWaitSecondCounter := wifiWaitSecondCounter g + 1, calls := calls g @ [WiFi_status]\<rparr>"
  by (simp add: wifiService_def issue_def Let_def)

lemma wifiService_connecting_timeout:
  "wifiState g = WIFISTATE_CONNECTING \<Longrightarrow> WIFIWAIT_MAX \<le> wifiWaitSecondCounter g + 1 \<Longrightarrow>
   wifiService False b g =
     g\<lparr>wifiState := WIFISTATE_ERRORTIMEOUT, wifiWaitSecondCounter := 1,
       calls := calls g @
         [WiFi_status, WiFi_disconnect, Serial_println ''WiFi connection timed-out'']\<rparr>"
  by (simp add: wifiService_def issue_def Let_def)

lemma wifiService_errortimeout_wait:
  "wifiState g = WIFISTATE_ERRORTIMEOUT \<Longrightarrow>
   wifiWaitSecondCounter g + 1 < WIFIRECONNECT_MAX \<Longrightarrow>
   wifiService a b g = g\<lparr>wifiWaitSecondCounter := wifiWaitSecondCounter g + 1\<rparr>"
  by (simp add: wifiService_def issue_def Let_def)

lemma wifiService_errortimeout_reconnect:
  "wifiState g = WIFISTATE_ERRORTIMEOUT \<Longrightarrow>
   WIFIRECONNECT_MAX \<le> wifiWaitSecondCounter g + 1 \<Longrightarrow>
   wifiService a b g = wifiConnect g"
  by (simp add: wifiService_def issue_def Let_def wifiConnect_def)

lemma wifiService_discowait_wait:
  "wifiState g = WIFISTATE_DISCOWAIT \<Longrightarrow>
   wifiWaitSecondCounter g + 1 < WIFIDISCOWAIT_MAX \<Longrightarrow>
   wifiService a b g = g\<lparr>wifiWaitSecondCounter := wifiWaitSecondCounter g + 1\<rparr>"
  by (simp add: wifiService_def issue_def Let_def)

lemma wifiService_discowait_reconnect:
  "wifiState g = WIFISTATE_DISCOWAIT \<Longrightarrow>
   WIFIDISCOWAIT_MAX \<le> wifiWaitSecondCounter g + 1 \<Longrightarrow>
   wifiService a b g = wifiConnect g"
  by (simp add: wifiService_def issue_def Let_def wifiConnect_def)

lemma wifiService_connected_stay:
  "wifiState g = WIFISTATE_CONNECTED \<Longrightarrow>
   wifiService a True g = g\<lparr>calls := calls g @ [WiFi_status]\<rparr>"
  by (simp add: wifiService_def issue_def Let_def)

lemma wifiService_connected_drop:
  "wifiState g = WIFISTATE_CONNECTED \<Longrightarrow>
   wifiService a False g =
     g\<lparr>wifiState := WIFISTATE_DISCOWAIT, wifiWaitSecondCounter := 0,
       calls := calls g @ [WiFi_status, Serial_println ''WiFi disconnect discovered'']\<rparr>"
  by (simp add: wifiService_def issue_def Let_def)

subsection \<open>The range of the wait counter\<close>

lemma wifi_range_wifiInit: "wifi_range (wifiInit g)"
  by (simp add: wifi_range_def wifiInit_def)

lemma wifi_range_wifiConnect: "wifi_range (wifiConnect g)"
  by (simp add: wifi_range_def wifiConnect_def issue_def)

lemma wifi_range_wifiDisconnect: "wifi_range (wifiDisconnect g)"
  by (simp add: wifi_range_def wifiDisconnect_def issue_def)

lemma wifi_range_wifiService:
  assumes "wifi_range g" shows "wifi_range (wifiService a b g)"
proof -
  consider (disconnected) "wifiState g = WIFISTATE_DISCONNECTED" "wifiWaitSecondCounter g = 0"
    | (connecting) "wifiState g = WIFISTATE_CONNECTING" "0 \<le> wifiWaitSecondCounter g"
        "wifiWaitSecondCounter g < WIFIWAIT_MAX"
    | (connected) "wifiState g = WIFISTATE_CONNECTED" "wifiWaitSecondCounter g = 0"
    | (discowait) "wifiState g = WIFISTATE_DISCOWAIT" "0 \<le> wifiWaitSecondCounter g"
        "wifiWaitSecondCounter g < WIFIDISCOWAIT_MAX"
    | (errortimeout) "wifiState g = WIFISTATE_ERRORTIMEOUT" "1 \<le> wifiWaitSecondCounter g"
        "wifiWaitSecondCounter g < WIFIRECONNECT_MAX"
    using assms unfolding wifi_range_def by blast
  then show ?thesis
  proof cases
    case disconnected
    with assms show ?thesis by (simp add: wifiService_disconnected)
  next
    case connecting
    show ?thesis
    proof (cases a)
      case True
      with connecting show ?thesis
        by (cases b) (simp_all add: wifiService_connecting_success
            wifiService_connecting_success_drop wifi_range_def)
    next
      case False
      with connecting show ?thesis
        by (cases "wifiWaitSecondCounter g + 1 < WIFIWAIT_MAX")
          (simp_all add: wifiService_connecting_wait wifiService_connecting_timeout
            wifi_range_def)
    qed
  next
    case connected
    then show ?thesis
      by (cases b) (simp_all add: wifiService_connected_stay wifiService_connected_drop
          wifi_range_def)
  next
    case discowait
    then show ?thesis
      by (cases "wifiWaitSecondCounter g + 1 < WIFIDISCOWAIT_MAX")
        (simp_all add: wifiService_discowait_wait wifiService_discowait_reconnect
          wifi_range_wifiConnect, simp add: wifi_range_def)
  next
    case errortimeout
    then show ?thesis
      by (cases "wifiWaitSecondCounter g + 1 < WIFIRECONNECT_MAX")
        (simp_all add: wifiService_errortimeout_wait wifiService_errortimeout_reconnect
          wifi_range_wifiConnect, simp add: wifi_range_def)
  qed
qed

lemma wifi_range_startup: "wifi_range (startup ssid pwd)"
  by (simp add: wifi_range_def startup_def)

subsection \<open>Consecutive calls\<close>

lemma wifiServiceLoop_append:
  "wifiServiceLoop (rs @ rs') g = wifiServiceLoop rs' (wifiServiceLoop rs g)"
  by (induction rs arbitrary: g) simp_all

lemma wifiServiceLoop_snoc:
  "wifiServiceLoop (rs @ [r]) g = wifiService (fst r) (snd r) (wifiServiceLoop rs g)"
  by (simp add: wifiServiceLoop_append)

lemma connecting_loop:
  "wifiState g = WIFISTATE_CONNECTING \<Longrightarrow> \<forall>r\<in>set rs. \<not> fst r \<Longrightarrow>
   wifiWaitSecondCounter g + int (length rs) < WIFIWAIT_MAX \<Longrightarrow>
   wifiServiceLoop rs g =
     g\<lparr>wifiWaitSecondCounter := wifiWaitSecondCounter g + int (length rs),
       calls := calls g @ replicate (length rs) WiFi_status\<rparr>"
proof (induction rs arbitrary: g)
  case Nil
  then show ?case by simp
next
  case (Cons r rs)
  let ?g = "g\<lparr>wifiWaitSecondCounter := wifiWaitSecondCounter g + 1,
              calls := calls g @ [WiFi_status]\<rparr>"
  from Cons.prems have step: "wifiService (fst r) (snd r) g = ?g"
    using wifiService_connecting_wait [of g "snd r"] by simp
  have "wifiServiceLoop rs ?g =
      ?g\<lparr>wifiWaitSecondCounter := wifiWaitSecondCounter ?g + int (length rs),
        calls := calls ?g @ replicate (length rs) WiFi_status\<rparr>"
    using Cons.prems by (intro Cons.IH) simp_all
  with step show ?case by (simp add: replicate_app_Cons_same)
qed

lemma errortimeout_loop:
  "wifiState g = WIFISTATE_ERRORTIMEOUT \<Longrightarrow>
   wifiWaitSecondCounter g + int (length rs) < WIFIRECONNECT_MAX \<Longrightarrow>
   wifiServiceLoop rs g =
     g\<lparr>wifiWaitSecondCounter := wifiWaitSecondCounter g + int (length rs)\<rparr>"
proof (induction rs arbitrary: g)
  case Nil
  then show ?case by simp
next
  case (Cons r rs)
  let ?g = "g\<lparr>wifiWaitSecondCounter := wifiWaitSecondCounter g + 1\<rparr>"
  from Cons.prems have step: "wifiService (fst r) (snd r) g = ?g"
    using wifiService_errortimeout_wait [of g "fst r" "snd r"] by simp
  have "wifiServiceLoop rs ?g =
      ?g\<lparr>wifiWaitSecondCounter := wifiWaitSecondCounter ?g + int (length rs)\<rparr>"
    using Cons.prems by (intro Cons.IH) simp_all
  with step show ?case by simp
qed

lemma discowait_loop:
  "wifiState g = WIFISTATE_DISCOWAIT \<Longrightarrow>
   wifiWaitSecondCounter g + int (length rs) < WIFIDISCOWAIT_MAX \<Longrightarrow>
   wifiServiceLoop rs g =
     g\<lparr>wifiWaitSecondCounter := wifiWaitSecondCounter g + int (length rs)\<rparr>"
proof (induction rs arbitrary: g)
  case Nil
  then show ?case by simp
next
  case (Cons r rs)
  let ?g = "g\<lparr>wifiWaitSecondCounter := wifiWaitSecondCounter g + 1\<rparr>"
  from Cons.prems have step: "wifiService (fst r) (snd r) g = ?g"
    using wifiService_discowait_wait [of g "fst r" "snd r"] by simp
  have "wifiServiceLoop rs ?g =
      ?g\<lparr>wifiWaitSecondCounter := wifiWaitSecondCounter ?g + int (length rs)\<rparr>"
    using Cons.prems by (intro Cons.IH) simp_all
  with step show ?case by simp
qed

text \<open>
  From ERRORTIMEOUT with counter \<open>c\<close>, the reconnect comes with the call that takes the
  counter to 60: every shorter run stays in ERRORTIMEOUT and issues nothing, the run of
  exactly \<open>60 - c\<close> calls ends in the state \<open>wifiConnect\<close> leaves.
\<close>

lemma errortimeout_reconnect_after:
  assumes "wifiState g = WIFISTATE_ERRORTIMEOUT"
    and "wifiWaitSecondCounter g + int (length rs) = WIFIRECONNECT_MAX" and "rs \<noteq> []"
  shows "wifiServiceLoop rs g = wifiConnect g"
proof -
  let ?g = "g\<lparr>wifiWaitSecondCounter := wifiWaitSecondCounter g + int (length (butlast rs))\<rparr>"
  have len: "int (length (butlast rs)) = int (length rs) - 1"
    using assms(3) by (cases rs rule: rev_cases) simp_all
  have "wifiServiceLoop (butlast rs) g = ?g"
    using assms(1,2) len by (intro errortimeout_loop) simp_all
  moreover have "wifiService (fst (last rs)) (snd (last rs)) ?g = wifiConnect ?g"
    using assms(1,2) len by (intro wifiService_errortimeout_reconnect) simp_all
  moreover have "wifiConnect ?g = wifiConnect g"
    by (simp add: wifiConnect_def issue_def)
  moreover have "wifiServiceLoop rs g =
      wifiService (fst (last rs)) (snd (last rs)) (wifiServiceLoop (butlast rs) g)"
    using assms(3) wifiServiceLoop_snoc [of "butlast rs" "last rs" g] by simp
  ultimately show ?thesis by simp
qed

lemma discowait_reconnect_after:
  assumes "wifiState g = WIFISTATE_DISCOWAIT"
    and "wifiWaitSecondCounter g + int (length rs) = WIFIDISCOWAIT_MAX" and "rs \<noteq> []"
  shows "wifiServiceLoop rs g = wifiConnect g"
proof -
  let ?g = "g\<lparr>wifiWaitSecondCounter := wifiWaitSecondCounter g + int (length (butlast rs))\<rparr>"
  have len: "int (length (butlast rs)) = int (length rs) - 1"
    using assms(3) by (cases rs rule: rev_cases) simp_all
  have "wifiServiceLoop (butlast rs) g = ?g"
    using assms(1,2) len by (intro discowait_loop) simp_all
  moreover have "wifiService (fst (last rs)) (snd (last rs)) ?g = wifiConnect ?g"
    using assms(1,2) len by (intro wifiService_discowait_reconnect) simp_all
  moreover have "wifiConnect ?g = wifiConnect g"
    by (simp add: wifiConnect_def issue_def)
  moreover have "wifiServiceLoop rs g =
      wifiService (fst (last rs)) (snd (last rs)) (wifiServiceLoop (butlast rs) g)"
    using assms(3) wifiServiceLoop_snoc [of "butlast rs" "last rs" g] by simp
  ultimately show ?thesis by simp
qed

lemma wifiConnect_fields:
  "wifiState (wifiConnect g) = WIFISTATE_CONNECTING"
  "wifiWaitSecondCounter (wifiConnect g) = 0"
  "calls (wifiConnect g) =
     calls g @ [WiFi_mode_WIFI_STA, WiFi_begin (wifissid g) (wifipwd g),
                Serial_println ''Wifi connection initiated'']"
  by (simp_all add: wifiConnect_def issue_def)

subsection \<open>The connect timeout\<close>

text \<open>
  Claim C1.  Start in CONNECTING with the counter at 0, as \<open>wifiConnect\<close> leaves it, and
  let every \<open>WiFi.status()\<close> read in the first statement answer "not connected".  Then
  after fewer than 30 calls the state is still CONNECTING and the only calls made on the
  network layer are the status reads; after the 30th call the state is ERRORTIMEOUT and
  the 30th call has issued \<open>WiFi.disconnect()\<close>; and in calls 31 to 88 the state stays
  ERRORTIMEOUT and nothing more is issued, so the transition and the disassociation
  request happen at the 30th call and only there.
\<close>

theorem C1_connect_timeout_at_30th_call:
  assumes "wifiState g = WIFISTATE_CONNECTING" and "wifiWaitSecondCounter g = 0"
    and "\<forall>r\<in>set rs. \<not> fst r"
  shows "(length rs < 30 \<longrightarrow>
            wifiState (wifiServiceLoop rs g) = WIFISTATE_CONNECTING \<and>
            calls (wifiServiceLoop rs g) = calls g @ replicate (length rs) WiFi_status) \<and>
         (30 \<le> length rs \<and> length rs < 89 \<longrightarrow>
            wifiState (wifiServiceLoop rs g) = WIFISTATE_ERRORTIMEOUT \<and>
            calls (wifiServiceLoop rs g) =
              calls g @ replicate 30 WiFi_status @
                [WiFi_disconnect, Serial_println ''WiFi connection timed-out''])"
proof (intro conjI impI)
  assume n: "length rs < 30"
  with assms have "wifiServiceLoop rs g =
      g\<lparr>wifiWaitSecondCounter := wifiWaitSecondCounter g + int (length rs),
        calls := calls g @ replicate (length rs) WiFi_status\<rparr>"
    by (intro connecting_loop) simp_all
  then show "wifiState (wifiServiceLoop rs g) = WIFISTATE_CONNECTING"
    and "calls (wifiServiceLoop rs g) = calls g @ replicate (length rs) WiFi_status"
    using assms by simp_all
next
  assume n: "30 \<le> length rs \<and> length rs < 89"
  define g29 where "g29 = wifiServiceLoop (take 29 rs) g"
  define g30 where "g30 = wifiService (fst (rs ! 29)) (snd (rs ! 29)) g29"
  have split: "rs = take 29 rs @ rs ! 29 # drop 30 rs"
    using n id_take_nth_drop [of 29 rs] by simp
  have sub: "\<forall>r\<in>set (take 29 rs). \<not> fst r"
    using assms(3) by (meson in_set_takeD)
  have g29: "g29 = g\<lparr>wifiWaitSecondCounter := 29,
                      calls := calls g @ replicate 29 WiFi_status\<rparr>"
    unfolding g29_def using assms(1,2) sub n
    by (subst connecting_loop) simp_all
  have "\<not> fst (rs ! 29)"
    using assms(3) n by simp
  then have g30: "g30 = g\<lparr>wifiState := WIFISTATE_ERRORTIMEOUT, wifiWaitSecondCounter := 1,
       calls := calls g @ replicate 29 WiFi_status @
         [WiFi_status, WiFi_disconnect, Serial_println ''WiFi connection timed-out'']\<rparr>"
    unfolding g30_def using assms(1) g29
      wifiService_connecting_timeout [of g29 "snd (rs ! 29)"] by simp
  have "wifiServiceLoop rs g = wifiServiceLoop (drop 30 rs) g30"
    by (subst split) (simp add: wifiServiceLoop_append g29_def g30_def)
  also have "\<dots> =
      g30\<lparr>wifiWaitSecondCounter := wifiWaitSecondCounter g30 + int (length (drop 30 rs))\<rparr>"
    using n g30 by (intro errortimeout_loop) simp_all
  finally have res: "wifiServiceLoop rs g =
      g30\<lparr>wifiWaitSecondCounter := wifiWaitSecondCounter g30 + int (length (drop 30 rs))\<rparr>" .
  have rep: "replicate 29 WiFi_status @
        [WiFi_status, WiFi_disconnect, Serial_println ''WiFi connection timed-out'']
      = replicate 30 WiFi_status @
        [WiFi_disconnect, Serial_println ''WiFi connection timed-out'']"
    by (simp add: eval_nat_numeral)
  show "wifiState (wifiServiceLoop rs g) = WIFISTATE_ERRORTIMEOUT"
    using res g30 by simp
  show "calls (wifiServiceLoop rs g) =
      calls g @ replicate 30 WiFi_status @
        [WiFi_disconnect, Serial_println ''WiFi connection timed-out'']"
    using res g30 rep by simp
qed

theorem C1_connect_timeout_witness:
  "wifiState (wifiConnect (startup ''net'' ''key'')) = WIFISTATE_CONNECTING \<and>
   wifiWaitSecondCounter (wifiConnect (startup ''net'' ''key'')) = 0 \<and>
   wifiState (wifiServiceLoop (replicate 29 (False, False))
               (wifiConnect (startup ''net'' ''key''))) = WIFISTATE_CONNECTING \<and>
   wifiState (wifiServiceLoop (replicate 30 (False, False))
               (wifiConnect (startup ''net'' ''key''))) = WIFISTATE_ERRORTIMEOUT \<and>
   calls (wifiServiceLoop (replicate 30 (False, False)) (wifiConnect (startup ''net'' ''key'')))
     = [WiFi_mode_WIFI_STA, WiFi_begin ''net'' ''key'',
        Serial_println ''Wifi connection initiated''] @
       replicate 30 WiFi_status @
       [WiFi_disconnect, Serial_println ''WiFi connection timed-out'']"
  using C1_connect_timeout_at_30th_call
          [of "wifiConnect (startup ''net'' ''key'')" "replicate 29 (False, False)"]
        C1_connect_timeout_at_30th_call
          [of "wifiConnect (startup ''net'' ''key'')" "replicate 30 (False, False)"]
  by (simp add: wifiConnect_fields startup_def)

subsection \<open>Recovery after a timeout\<close>

text \<open>
  Claim C6.  From ERRORTIMEOUT with the counter at 0, whatever \<open>WiFi.status()\<close> would
  answer: after any number of calls up to 59 the state is still ERRORTIMEOUT and nothing
  has been issued to the network layer; the 60th call runs \<open>wifiConnect\<close>, so 60 calls
  end in the state \<open>wifiConnect\<close> produces, which is CONNECTING.
\<close>

theorem C6_reconnect_at_60th_call:
  assumes "wifiState g = WIFISTATE_ERRORTIMEOUT" and "wifiWaitSecondCounter g = 0"
  shows "(length rs < 60 \<longrightarrow>
            wifiState (wifiServiceLoop rs g) = WIFISTATE_ERRORTIMEOUT \<and>
            calls (wifiServiceLoop rs g) = calls g) \<and>
         (length rs = 60 \<longrightarrow>
            wifiServiceLoop rs g = wifiConnect g \<and>
            wifiState (wifiServiceLoop rs g) = WIFISTATE_CONNECTING)"
proof (intro conjI impI)
  assume "length rs < 60"
  with assms have "wifiServiceLoop rs g =
      g\<lparr>wifiWaitSecondCounter := wifiWaitSecondCounter g + int (length rs)\<rparr>"
    by (intro errortimeout_loop) simp_all
  with assms(1) show "wifiState (wifiServiceLoop rs g) = WIFISTATE_ERRORTIMEOUT"
    and "calls (wifiServiceLoop rs g) = calls g"
    by simp_all
next
  assume n: "length rs = 60"
  then have "rs \<noteq> []" by auto
  with assms n show eq: "wifiServiceLoop rs g = wifiConnect g"
    by (intro errortimeout_reconnect_after) simp_all
  show "wifiState (wifiServiceLoop rs g) = WIFISTATE_CONNECTING"
    by (simp add: eq wifiConnect_fields)
qed

theorem C6_reconnect_witness:
  "wifiState ((startup ''net'' ''key'')\<lparr>wifiState := WIFISTATE_ERRORTIMEOUT\<rparr>)
     = WIFISTATE_ERRORTIMEOUT \<and>
   wifiWaitSecondCounter ((startup ''net'' ''key'')\<lparr>wifiState := WIFISTATE_ERRORTIMEOUT\<rparr>) = 0 \<and>
   wifiState (wifiServiceLoop (replicate 59 (False, False))
      ((startup ''net'' ''key'')\<lparr>wifiState := WIFISTATE_ERRORTIMEOUT\<rparr>))
     = WIFISTATE_ERRORTIMEOUT \<and>
   wifiState (wifiServiceLoop (replicate 60 (False, False))
      ((startup ''net'' ''key'')\<lparr>wifiState := WIFISTATE_ERRORTIMEOUT\<rparr>))
     = WIFISTATE_CONNECTING \<and>
   calls (wifiServiceLoop (replicate 60 (False, False))
      ((startup ''net'' ''key'')\<lparr>wifiState := WIFISTATE_ERRORTIMEOUT\<rparr>))
     = [WiFi_mode_WIFI_STA, WiFi_begin ''net'' ''key'',
        Serial_println ''Wifi connection initiated'']"
  using C6_reconnect_at_60th_call
          [of "(startup ''net'' ''key'')\<lparr>wifiState := WIFISTATE_ERRORTIMEOUT\<rparr>"
              "replicate 59 (False, False)"]
        C6_reconnect_at_60th_call
          [of "(startup ''net'' ''key'')\<lparr>wifiState := WIFISTATE_ERRORTIMEOUT\<rparr>"
              "replicate 60 (False, False)"]
  by (simp add: wifiConnect_fields startup_def)

subsection \<open>A connection that drops\<close>

text \<open>
  Claim C4.  In CONNECTED, a call in which \<open>WiFi.status()\<close> answers "not connected"
  ends in DISCOWAIT with the counter at 0.  From there, whatever the network layer
  answers, after up to 9 further calls the state is still DISCOWAIT and nothing has been
  issued; the 10th further call runs \<open>wifiConnect\<close>, so the state is CONNECTING.
\<close>

theorem C4_disconnect_then_reconnect_after_10:
  assumes "wifiState g = WIFISTATE_CONNECTED"
  shows "wifiState (wifiService a False g) = WIFISTATE_DISCOWAIT \<and>
         wifiWaitSecondCounter (wifiService a False g) = 0 \<and>
         (length rs < 10 \<longrightarrow>
            wifiState (wifiServiceLoop rs (wifiService a False g)) = WIFISTATE_DISCOWAIT \<and>
            calls (wifiServiceLoop rs (wifiService a False g)) = calls (wifiService a False g)) \<and>
         (length rs = 10 \<longrightarrow>
            wifiServiceLoop rs (wifiService a False g) = wifiConnect (wifiService a False g) \<and>
            wifiState (wifiServiceLoop rs (wifiService a False g)) = WIFISTATE_CONNECTING)"
proof -
  define g1 where "g1 = wifiService a False g"
  have st: "wifiState g1 = WIFISTATE_DISCOWAIT" and cnt: "wifiWaitSecondCounter g1 = 0"
    using assms by (simp_all add: g1_def wifiService_connected_drop)
  have short: "wifiState (wifiServiceLoop rs g1) = WIFISTATE_DISCOWAIT \<and>
               calls (wifiServiceLoop rs g1) = calls g1" if "length rs < 10"
  proof -
    have "wifiServiceLoop rs g1 =
        g1\<lparr>wifiWaitSecondCounter := wifiWaitSecondCounter g1 + int (length rs)\<rparr>"
      using st cnt that by (intro discowait_loop) simp_all
    with st show ?thesis by simp
  qed
  have full: "wifiServiceLoop rs g1 = wifiConnect g1 \<and>
              wifiState (wifiServiceLoop rs g1) = WIFISTATE_CONNECTING" if "length rs = 10"
  proof -
    from that have "rs \<noteq> []" by auto
    with st cnt that have "wifiServiceLoop rs g1 = wifiConnect g1"
      by (intro discowait_reconnect_after) simp_all
    then show ?thesis by (simp add: wifiConnect_fields)
  qed
  from st cnt short full show ?thesis
    unfolding g1_def by blast
qed

theorem C4_disconnect_witness:
  "wifiState ((startup ''net'' ''key'')\<lparr>wifiState := WIFISTATE_CONNECTED\<rparr>)
     = WIFISTATE_CONNECTED \<and>
   wifiState (wifiService True False
      ((startup ''net'' ''key'')\<lparr>wifiState := WIFISTATE_CONNECTED\<rparr>)) = WIFISTATE_DISCOWAIT \<and>
   wifiState (wifiServiceLoop (replicate 9 (True, True)) (wifiService True False
      ((startup ''net'' ''key'')\<lparr>wifiState := WIFISTATE_CONNECTED\<rparr>))) = WIFISTATE_DISCOWAIT \<and>
   wifiState (wifiServiceLoop (replicate 10 (True, True)) (wifiService True False
      ((startup ''net'' ''key'')\<lparr>wifiState := WIFISTATE_CONNECTED\<rparr>))) = WIFISTATE_CONNECTING"
  using C4_disconnect_then_reconnect_after_10
          [of "(startup ''net'' ''key'')\<lparr>wifiState := WIFISTATE_CONNECTED\<rparr>"
              True "replicate 9 (True, True)"]
        C4_disconnect_then_reconnect_after_10
          [of "(startup ''net'' ''key'')\<lparr>wifiState := WIFISTATE_CONNECTED\<rparr>"
              True "replicate 10 (True, True)"]
  by (simp add: wifiConnect_fields)

subsection \<open>The call that times out\<close>

text \<open>
  Claim C10.  Take a call that performs the timeout transition: it starts in CONNECTING
  with the counter in the range the program keeps it in, the status read answers "not
  connected" and the incremented counter reaches 30, so the counter was 29.  The fourth
  \<open>if\<close> statement of the same call then sees ERRORTIMEOUT and increments the counter
  that was just cleared, so the call ends in ERRORTIMEOUT with the counter at 1.  After
  up to 58 further calls the state is still ERRORTIMEOUT and nothing has been issued;
  the 59th further call runs \<open>wifiConnect\<close>.
\<close>

theorem C10_timeout_call_counts_one:
  assumes "wifi_range g" and "wifiState g = WIFISTATE_CONNECTING"
    and "WIFIWAIT_MAX \<le> wifiWaitSecondCounter g + 1"
  shows "wifiWaitSecondCounter g = 29 \<and>
         wifiState (wifiService False b g) = WIFISTATE_ERRORTIMEOUT \<and>
         wifiWaitSecondCounter (wifiService False b g) = 1 \<and>
         (length rs < 59 \<longrightarrow>
            wifiState (wifiServiceLoop rs (wifiService False b g)) = WIFISTATE_ERRORTIMEOUT \<and>
            calls (wifiServiceLoop rs (wifiService False b g)) = calls (wifiService False b g)) \<and>
         (length rs = 59 \<longrightarrow>
            wifiServiceLoop rs (wifiService False b g) = wifiConnect (wifiService False b g) \<and>
            wifiState (wifiServiceLoop rs (wifiService False b g)) = WIFISTATE_CONNECTING)"
proof -
  define g1 where "g1 = wifiService False b g"
  have c29: "wifiWaitSecondCounter g = 29"
    using assms unfolding wifi_range_def by auto
  have st: "wifiState g1 = WIFISTATE_ERRORTIMEOUT" and cnt: "wifiWaitSecondCounter g1 = 1"
    using assms(2,3) by (simp_all add: g1_def wifiService_connecting_timeout)
  have short: "wifiState (wifiServiceLoop rs g1) = WIFISTATE_ERRORTIMEOUT \<and>
               calls (wifiServiceLoop rs g1) = calls g1" if "length rs < 59"
  proof -
    have "wifiServiceLoop rs g1 =
        g1\<lparr>wifiWaitSecondCounter := wifiWaitSecondCounter g1 + int (length rs)\<rparr>"
      using st cnt that by (intro errortimeout_loop) simp_all
    with st show ?thesis by simp
  qed
  have full: "wifiServiceLoop rs g1 = wifiConnect g1 \<and>
              wifiState (wifiServiceLoop rs g1) = WIFISTATE_CONNECTING" if "length rs = 59"
  proof -
    from that have "rs \<noteq> []" by auto
    with st cnt that have "wifiServiceLoop rs g1 = wifiConnect g1"
      by (intro errortimeout_reconnect_after) simp_all
    then show ?thesis by (simp add: wifiConnect_fields)
  qed
  from c29 st cnt short full show ?thesis
    unfolding g1_def by blast
qed

text \<open>
  An instance: the state reached by \<open>wifiConnect\<close> at power-on and 29 calls without a
  connection; the 30th call is the timeout call.
\<close>

theorem C10_timeout_call_witness:
  "wifi_range (wifiServiceLoop (replicate 29 (False, False))
      (wifiConnect (startup ''net'' ''key''))) \<and>
   wifiState (wifiServiceLoop (replicate 29 (False, False))
      (wifiConnect (startup ''net'' ''key''))) = WIFISTATE_CONNECTING \<and>
   WIFIWAIT_MAX \<le> wifiWaitSecondCounter (wifiServiceLoop (replicate 29 (False, False))
      (wifiConnect (startup ''net'' ''key''))) + 1 \<and>
   wifiState (wifiService False False (wifiServiceLoop (replicate 29 (False, False))
      (wifiConnect (startup ''net'' ''key'')))) = WIFISTATE_ERRORTIMEOUT \<and>
   wifiWaitSecondCounter (wifiService False False (wifiServiceLoop (replicate 29 (False, False))
      (wifiConnect (startup ''net'' ''key'')))) = 1 \<and>
   wifiState (wifiServiceLoop (replicate 58 (False, False))
      (wifiService False False (wifiServiceLoop (replicate 29 (False, False))
        (wifiConnect (startup ''net'' ''key''))))) = WIFISTATE_ERRORTIMEOUT \<and>
   wifiState (wifiServiceLoop (replicate 59 (False, False))
      (wifiService False False (wifiServiceLoop (replicate 29 (False, False))
        (wifiConnect (startup ''net'' ''key''))))) = WIFISTATE_CONNECTING"
proof -
  let ?g = "wifiConnect (startup ''net'' ''key'')"
  define g29 where "g29 = wifiServiceLoop (replicate 29 (False, False)) ?g"
  have "g29 =
      ?g\<lparr>wifiWaitSecondCounter :=
            wifiWaitSecondCounter ?g + int (length (replicate 29 (False, False))),
          calls := calls ?g @ replicate (length (replicate 29 (False, False))) WiFi_status\<rparr>"
    unfolding g29_def by (intro connecting_loop) (simp_all add: wifiConnect_fields)
  then have st: "wifiState g29 = WIFISTATE_CONNECTING"
    and cnt: "wifiWaitSecondCounter g29 = 29"
    by (simp_all add: wifiConnect_fields)
  have rng: "wifi_range g29"
    using st cnt by (simp add: wifi_range_def)
  have le: "WIFIWAIT_MAX \<le> wifiWaitSecondCounter g29 + 1"
    using cnt by simp
  from rng st le
    C10_timeout_call_counts_one [OF rng st le, of False "replicate 58 (False, False)"]
    C10_timeout_call_counts_one [OF rng st le, of False "replicate 59 (False, False)"]
  show ?thesis
    unfolding g29_def by (simp add: wifiConnect_fields)
qed

subsection \<open>The counter across a change of state\<close>

text \<open>
  What one call does to the pair of state and counter, from any state in range: the
  state is kept and the counter is kept or, in one of the three waiting states, goes up
  by one; or the state changes and the counter ends at 0; or the call is the timeout
  call, which changes the state and ends with the counter at 1.
\<close>

lemma wifiService_state_counter:
  assumes "wifi_range g"
  shows "(wifiState (wifiService a b g) = wifiState g \<and>
            (wifiWaitSecondCounter (wifiService a b g) = wifiWaitSecondCounter g \<or>
             wifiWaitSecondCounter (wifiService a b g) = wifiWaitSecondCounter g + 1 \<and>
             wifiState g \<in> {WIFISTATE_CONNECTING, WIFISTATE_DISCOWAIT, WIFISTATE_ERRORTIMEOUT})) \<or>
         (wifiState (wifiService a b g) \<noteq> wifiState g \<and>
            wifiWaitSecondCounter (wifiService a b g) = 0) \<or>
         (wifiState g = WIFISTATE_CONNECTING \<and> wifiWaitSecondCounter g = 29 \<and> \<not> a \<and>
            wifiState (wifiService a b g) = WIFISTATE_ERRORTIMEOUT \<and>
            wifiWaitSecondCounter (wifiService a b g) = 1)"
proof -
  consider (disconnected) "wifiState g = WIFISTATE_DISCONNECTED"
    | (connecting) "wifiState g = WIFISTATE_CONNECTING" "0 \<le> wifiWaitSecondCounter g"
        "wifiWaitSecondCounter g < WIFIWAIT_MAX"
    | (connected) "wifiState g = WIFISTATE_CONNECTED"
    | (discowait) "wifiState g = WIFISTATE_DISCOWAIT"
    | (errortimeout) "wifiState g = WIFISTATE_ERRORTIMEOUT"
    using assms unfolding wifi_range_def by blast
  then show ?thesis
  proof cases
    case disconnected
    then show ?thesis by (simp add: wifiService_disconnected)
  next
    case connecting
    show ?thesis
    proof (cases a)
      case True
      with connecting show ?thesis
        by (cases b) (simp_all add: wifiService_connecting_success
            wifiService_connecting_success_drop)
    next
      case False
      with connecting show ?thesis
        by (cases "wifiWaitSecondCounter g + 1 < WIFIWAIT_MAX")
          (simp_all add: wifiService_connecting_wait wifiService_connecting_timeout)
    qed
  next
    case connected
    then show ?thesis
      by (cases b) (simp_all add: wifiService_connected_stay wifiService_connected_drop)
  next
    case discowait
    then show ?thesis
      by (cases "wifiWaitSecondCounter g + 1 < WIFIDISCOWAIT_MAX")
        (simp_all add: wifiService_discowait_wait wifiService_discowait_reconnect
          wifiConnect_fields)
  next
    case errortimeout
    then show ?thesis
      by (cases "wifiWaitSecondCounter g + 1 < WIFIRECONNECT_MAX")
        (simp_all add: wifiService_errortimeout_wait wifiService_errortimeout_reconnect
          wifiConnect_fields)
  qed
qed

text \<open>
  Claim C7, at the timeout call.  After \<open>wifiConnect\<close> and 29 calls without a
  connection the state is CONNECTING with the counter at 29; the 30th call changes the
  state to ERRORTIMEOUT and ends with the counter at 1, not 0.
\<close>

theorem C7_timeout_call_ends_with_counter_1:
  "wifiState (wifiServiceLoop (replicate 29 (False, False))
       (wifiConnect (startup ''net'' ''key''))) = WIFISTATE_CONNECTING \<and>
   wifiState (wifiService False False (wifiServiceLoop (replicate 29 (False, False))
       (wifiConnect (startup ''net'' ''key'')))) = WIFISTATE_ERRORTIMEOUT \<and>
   wifiWaitSecondCounter (wifiService False False (wifiServiceLoop (replicate 29 (False, False))
       (wifiConnect (startup ''net'' ''key'')))) = 1"
proof -
  let ?g = "wifiConnect (startup ''net'' ''key'')"
  have "wifiServiceLoop (replicate 29 (False, False)) ?g =
      ?g\<lparr>wifiWaitSecondCounter :=
            wifiWaitSecondCounter ?g + int (length (replicate 29 (False, False))),
          calls := calls ?g @ replicate (length (replicate 29 (False, False))) WiFi_status\<rparr>"
    by (intro connecting_loop) (simp_all add: wifiConnect_fields)
  then have g29: "wifiServiceLoop (replicate 29 (False, False)) ?g =
      ?g\<lparr>wifiWaitSecondCounter := 29, calls := calls ?g @ replicate 29 WiFi_status\<rparr>"
    by (simp add: wifiConnect_fields)
  show ?thesis
    unfolding g29 by (simp add: wifiService_connecting_timeout wifiConnect_fields)
qed

section \<open>Properties of the calendar edge detectors\<close>

subsection \<open>One call\<close>

lemma secondDetector_result:
  "secondDetector r g =
     (getSecond r \<noteq> lastSec g,
      g\<lparr>lastSec := getSecond r, calls := calls g @ [Rtc_getSecond]\<rparr>)"
  by (cases "getSecond r = lastSec g") (simp_all add: secondDetector_def issue_def Let_def)

lemma minuteDetector_result:
  "minuteDetector r g =
     (getMinute r \<noteq> lastMin g,
      g\<lparr>lastMin := getMinute r, calls := calls g @ [Rtc_getMinute]\<rparr>)"
  by (cases "getMinute r = lastMin g") (simp_all add: minuteDetector_def issue_def Let_def)

lemma hourDetector_result:
  "hourDetector r g =
     (getHour_true r \<noteq> lastHr g,
      g\<lparr>lastHr := getHour_true r, calls := calls g @ [Rtc_getHour_true]\<rparr>)"
  by (cases "getHour_true r = lastHr g") (simp_all add: hourDetector_def issue_def Let_def)

lemma dayDetector_result:
  "dayDetector r g =
     (getDay r \<noteq> lastDay g \<and> lastDay g \<noteq> -1,
      g\<lparr>lastDay := getDay r, calls := calls g @ [Rtc_getDay]\<rparr>)"
  by (cases "getDay r = lastDay g") (simp_all add: dayDetector_def issue_def Let_def)

lemma schedulerInit_result:
  "schedulerInit r g =
     g\<lparr>lastDay := getDay r, lastHr := getHour r, lastMin := getMinute r,
       lastSec := getSecond r,
       calls := calls g @ [Rtc_getSecond, Rtc_getMinute, Rtc_getHour, Rtc_getDay]\<rparr>"
  by (simp add: schedulerInit_def issue_def Let_def)

subsection \<open>A sequence of calls\<close>

text \<open>
  The result of call number \<open>i\<close> is whether the field read by that call differs from
  the field read by call \<open>i - 1\<close> (from the baseline, for the first call).
\<close>

lemma detectorLoop_Cons:
  "fst (detectorLoop d (r # rs) g) = fst (d r g) # fst (detectorLoop d rs (snd (d r g)))"
  by (simp add: case_prod_beta)

lemma secondDetector_loop:
  "fst (detectorLoop secondDetector rs g) =
     map (\<lambda>(prev, cur). cur \<noteq> prev) (zip (lastSec g # map getSecond rs) (map getSecond rs))"
  by (induction rs arbitrary: g)
    (simp_all add: detectorLoop_Cons secondDetector_result del: detectorLoop.simps(2))

lemma minuteDetector_loop:
  "fst (detectorLoop minuteDetector rs g) =
     map (\<lambda>(prev, cur). cur \<noteq> prev) (zip (lastMin g # map getMinute rs) (map getMinute rs))"
  by (induction rs arbitrary: g)
    (simp_all add: detectorLoop_Cons minuteDetector_result del: detectorLoop.simps(2))

lemma hourDetector_loop:
  "fst (detectorLoop hourDetector rs g) =
     map (\<lambda>(prev, cur). cur \<noteq> prev)
       (zip (lastHr g # map getHour_true rs) (map getHour_true rs))"
  by (induction rs arbitrary: g)
    (simp_all add: detectorLoop_Cons hourDetector_result del: detectorLoop.simps(2))

lemma dayDetector_loop:
  "lastDay g \<noteq> -1 \<Longrightarrow> \<forall>r\<in>set rs. getDay r \<noteq> -1 \<Longrightarrow>
   fst (detectorLoop dayDetector rs g) =
     map (\<lambda>(prev, cur). cur \<noteq> prev) (zip (lastDay g # map getDay rs) (map getDay rs))"
  by (induction rs arbitrary: g)
    (simp_all add: detectorLoop_Cons dayDetector_result del: detectorLoop.simps(2))

subsection \<open>Edge triggering\<close>

text \<open>
  Claim C3.  For each detector whose baseline is not the sentinel \<open>-1\<close>: a call that
  reads the baseline value returns false and keeps the baseline; a call that reads
  another value returns true and makes it the baseline; and over any sequence of calls
  the results are exactly the positions where the field read differs from the one read
  by the call before.  For the day detector the sequence statement needs the clock never
  to answer \<open>-1\<close>, which would put the sentinel back into the baseline.
\<close>

theorem C3_detectors_edge_triggered:
  "(lastSec g \<noteq> -1 \<longrightarrow>
      (getSecond r = lastSec g \<longrightarrow>
         \<not> fst (secondDetector r g) \<and> lastSec (snd (secondDetector r g)) = lastSec g) \<and>
      (getSecond r \<noteq> lastSec g \<longrightarrow>
         fst (secondDetector r g) \<and> lastSec (snd (secondDetector r g)) = getSecond r) \<and>
      fst (detectorLoop secondDetector rs g) =
        map (\<lambda>(prev, cur). cur \<noteq> prev)
          (zip (lastSec g # map getSecond rs) (map getSecond rs))) \<and>
   (lastMin g \<noteq> -1 \<longrightarrow>
      (getMinute r = lastMin g \<longrightarrow>
         \<not> fst (minuteDetector r g) \<and> lastMin (snd (minuteDetector r g)) = lastMin g) \<and>
      (getMinute r \<noteq> lastMin g \<longrightarrow>
         fst (minuteDetector r g) \<and> lastMin (snd (minuteDetector r g)) = getMinute r) \<and>
      fst (detectorLoop minuteDetector rs g) =
        map (\<lambda>(prev, cur). cur \<noteq> prev)
          (zip (lastMin g # map getMinute rs) (map getMinute rs))) \<and>
   (lastHr g \<noteq> -1 \<longrightarrow>
      (getHour_true r = lastHr g \<longrightarrow>
         \<not> fst (hourDetector r g) \<and> lastHr (snd (hourDetector r g)) = lastHr g) \<and>
      (getHour_true r \<noteq> lastHr g \<longrightarrow>
         fst (hourDetector r g) \<and> lastHr (snd (hourDetector r g)) = getHour_true r) \<and>
      fst (detectorLoop hourDetector rs g) =
        map (\<lambda>(prev, cur). cur \<noteq> prev)
          (zip (lastHr g # map getHour_true rs) (map getHour_true rs))) \<and>
   (lastDay g \<noteq> -1 \<longrightarrow>
      (getDay r = lastDay g \<longrightarrow>
         \<not> fst (dayDetector r g) \<and> lastDay (snd (dayDetector r g)) = lastDay g) \<and>
      (getDay r \<noteq> lastDay g \<longrightarrow>
         fst (dayDetector r g) \<and> lastDay (snd (dayDetector r g)) = getDay r) \<and>
      ((\<forall>r\<in>set rs. getDay r \<noteq> -1) \<longrightarrow>
         fst (detectorLoop dayDetector rs g) =
           map (\<lambda>(prev, cur). cur \<noteq> prev)
             (zip (lastDay g # map getDay rs) (map getDay rs))))"
proof (intro conjI impI)
  assume "lastDay g \<noteq> -1" and "\<forall>r\<in>set rs. getDay r \<noteq> -1"
  then show "fst (detectorLoop dayDetector rs g) =
      map (\<lambda>(prev, cur). cur \<noteq> prev) (zip (lastDay g # map getDay rs) (map getDay rs))"
    by (rule dayDetector_loop)
qed (simp_all add: secondDetector_result minuteDetector_result hourDetector_result
      dayDetector_result secondDetector_loop minuteDetector_loop hourDetector_loop)

text \<open>
  An instance: the baselines are those left by \<open>schedulerInit\<close> at second 5 of day 20;
  four calls read second 5, 5, 6, 6 and day 20, 20, 21, 21.
\<close>

theorem C3_detectors_witness:
  "lastSec (schedulerInit
      \<lparr>getSecond = 5, getMinute = 10, getHour = 3, getHour_true = 3, getDay = 20\<rparr>
      (startup ''net'' ''key'')) \<noteq> -1 \<and>
   lastDay (schedulerInit
      \<lparr>getSecond = 5, getMinute = 10, getHour = 3, getHour_true = 3, getDay = 20\<rparr>
      (startup ''net'' ''key'')) \<noteq> -1 \<and>
   fst (detectorLoop secondDetector
      [\<lparr>getSecond = 5, getMinute = 10, getHour = 3, getHour_true = 3, getDay = 20\<rparr>,
       \<lparr>getSecond = 5, getMinute = 10, getHour = 3, getHour_true = 3, getDay = 20\<rparr>,
       \<lparr>getSecond = 6, getMinute = 10, getHour = 3, getHour_true = 3, getDay = 21\<rparr>,
       \<lparr>getSecond = 6, getMinute = 10, getHour = 3, getHour_true = 3, getDay = 21\<rparr>]
      (schedulerInit
        \<lparr>getSecond = 5, getMinute = 10, getHour = 3, getHour_true = 3, getDay = 20\<rparr>
        (startup ''net'' ''key''))) = [False, False, True, False] \<and>
   fst (detectorLoop dayDetector
      [\<lparr>getSecond = 5, getMinute = 10, getHour = 3, getHour_true = 3, getDay = 20\<rparr>,
       \<lparr>getSecond = 5, getMinute = 10, getHour = 3, getHour_true = 3, getDay = 20\<rparr>,
       \<lparr>getSecond = 6, getMinute = 10, getHour = 3, getHour_true = 3, getDay = 21\<rparr>,
       \<lparr>getSecond = 6, getMinute = 10, getHour = 3, getHour_true = 3, getDay = 21\<rparr>]
      (schedulerInit
        \<lparr>getSecond = 5, getMinute = 10, getHour = 3, getHour_true = 3, getDay = 20\<rparr>
        (startup ''net'' ''key''))) = [False, False, True, False]"
  using C3_detectors_edge_triggered
    [of "schedulerInit
           \<lparr>getSecond = 5, getMinute = 10, getHour = 3, getHour_true = 3, getDay = 20\<rparr>
           (startup ''net'' ''key'')"
        "\<lparr>getSecond = 5, getMinute = 10, getHour = 3, getHour_true = 3, getDay = 20\<rparr>"
        "[\<lparr>getSecond = 5, getMinute = 10, getHour = 3, getHour_true = 3, getDay = 20\<rparr>,
          \<lparr>getSecond = 5, getMinute = 10, getHour = 3, getHour_true = 3, getDay = 20\<rparr>,
          \<lparr>getSecond = 6, getMinute = 10, getHour = 3, getHour_true = 3, getDay = 21\<rparr>,
          \<lparr>getSecond = 6, getMinute = 10, getHour = 3, getHour_true = 3, getDay = 21\<rparr>]"]
  by (simp add: schedulerInit_result)

subsection \<open>The first call at power-on\<close>

text \<open>
  Claim C9.  With the baseline at the sentinel \<open>-1\<close>, the first call of the day
  detector returns false and stores the day it read; the first call of the second,
  minute and hour detectors returns true whenever the field it reads is not \<open>-1\<close>, and
  stores it.
\<close>

theorem C9_first_call_from_sentinel:
  "(lastDay g = -1 \<longrightarrow>
      \<not> fst (dayDetector r g) \<and> lastDay (snd (dayDetector r g)) = getDay r) \<and>
   (lastSec g = -1 \<and> getSecond r \<noteq> -1 \<longrightarrow>
      fst (secondDetector r g) \<and> lastSec (snd (secondDetector r g)) = getSecond r) \<and>
   (lastMin g = -1 \<and> getMinute r \<noteq> -1 \<longrightarrow>
      fst (minuteDetector r g) \<and> lastMin (snd (minuteDetector r g)) = getMinute r) \<and>
   (lastHr g = -1 \<and> getHour_true r \<noteq> -1 \<longrightarrow>
      fst (hourDetector r g) \<and> lastHr (snd (hourDetector r g)) = getHour_true r)"
  by (simp add: secondDetector_result minuteDetector_result hourDetector_result
      dayDetector_result)

theorem C9_first_call_witness:
  "lastDay (startup ''net'' ''key'') = -1 \<and> lastSec (startup ''net'' ''key'') = -1 \<and>
   lastMin (startup ''net'' ''key'') = -1 \<and> lastHr (startup ''net'' ''key'') = -1 \<and>
   \<not> fst (dayDetector
      \<lparr>getSecond = 0, getMinute = 0, getHour = 12, getHour_true = 0, getDay = 1\<rparr>
      (startup ''net'' ''key'')) \<and>
   lastDay (snd (dayDetector
      \<lparr>getSecond = 0, getMinute = 0, getHour = 12, getHour_true = 0, getDay = 1\<rparr>
      (startup ''net'' ''key''))) = 1 \<and>
   fst (secondDetector
      \<lparr>getSecond = 0, getMinute = 0, getHour = 12, getHour_true = 0, getDay = 1\<rparr>
      (startup ''net'' ''key'')) \<and>
   fst (minuteDetector
      \<lparr>getSecond = 0, getMinute = 0, getHour = 12, getHour_true = 0, getDay = 1\<rparr>
      (startup ''net'' ''key'')) \<and>
   fst (hourDetector
      \<lparr>getSecond = 0, getMinute = 0, getHour = 12, getHour_true = 0, getDay = 1\<rparr>
      (startup ''net'' ''key''))"
  using C9_first_call_from_sentinel
    [of "startup ''net'' ''key''"
        "\<lparr>getSecond = 0, getMinute = 0, getHour = 12, getHour_true = 0, getDay = 1\<rparr>"]
  by (simp add: startup_def)

subsection \<open>The call after a reset\<close>

text \<open>
  Claim C8 as stated fails: the reset stores the fields it reads, and a detector that
  then reads another value fires.  Here the reset reads 15:10:05 on day 20 (3 in the
  clock's default hour mode) and the detectors read 16:11:06 on day 21.
\<close>

theorem C8_detectors_fire_after_reset:
  "fst (secondDetector
      \<lparr>getSecond = 6, getMinute = 11, getHour = 4, getHour_true = 16, getDay = 21\<rparr>
      (schedulerInit
        \<lparr>getSecond = 5, getMinute = 10, getHour = 3, getHour_true = 15, getDay = 20\<rparr>
        (startup ''net'' ''key''))) \<and>
   fst (minuteDetector
      \<lparr>getSecond = 6, getMinute = 11, getHour = 4, getHour_true = 16, getDay = 21\<rparr>
      (schedulerInit
        \<lparr>getSecond = 5, getMinute = 10, getHour = 3, getHour_true = 15, getDay = 20\<rparr>
        (startup ''net'' ''key''))) \<and>
   fst (hourDetector
      \<lparr>getSecond = 6, getMinute = 11, getHour = 4, getHour_true = 16, getDay = 21\<rparr>
      (schedulerInit
        \<lparr>getSecond = 5, getMinute = 10, getHour = 3, getHour_true = 15, getDay = 20\<rparr>
        (startup ''net'' ''key''))) \<and>
   fst (dayDetector
      \<lparr>getSecond = 6, getMinute = 11, getHour = 4, getHour_true = 16, getDay = 21\<rparr>
      (schedulerInit
        \<lparr>getSecond = 5, getMinute = 10, getHour = 3, getHour_true = 15, getDay = 20\<rparr>
        (startup ''net'' ''key'')))"
  by (simp add: secondDetector_def minuteDetector_def hourDetector_def dayDetector_def
      schedulerInit_def issue_def Let_def)

text \<open>
  Claim C8, amended.  After \<open>schedulerInit\<close>, the next call of the second, minute or day
  detector returns false when it reads the same field value as the reset did.  Calls of
  the other detectors in between make no difference, since a detector writes no
  baseline but its own.
\<close>

theorem C8_no_fire_after_reset_when_unchanged:
  "(getSecond r' = getSecond r \<longrightarrow> \<not> fst (secondDetector r' (schedulerInit r g))) \<and>
   (getMinute r' = getMinute r \<longrightarrow> \<not> fst (minuteDetector r' (schedulerInit r g))) \<and>
   (getDay r' = getDay r \<longrightarrow> \<not> fst (dayDetector r' (schedulerInit r g))) \<and>
   (getMinute r' = getMinute r \<longrightarrow>
      \<not> fst (minuteDetector r' (snd (secondDetector r' (schedulerInit r g))))) \<and>
   (getDay r' = getDay r \<longrightarrow>
      \<not> fst (dayDetector r'
             (snd (hourDetector r'
               (snd (minuteDetector r' (snd (secondDetector r' (schedulerInit r g)))))))))"
  by (simp add: secondDetector_result minuteDetector_result hourDetector_result
      dayDetector_result schedulerInit_result)

theorem C8_no_fire_after_reset_witness:
  "\<not> fst (secondDetector
      \<lparr>getSecond = 5, getMinute = 10, getHour = 3, getHour_true = 15, getDay = 20\<rparr>
      (schedulerInit
        \<lparr>getSecond = 5, getMinute = 10, getHour = 3, getHour_true = 15, getDay = 20\<rparr>
        (startup ''net'' ''key''))) \<and>
   \<not> fst (minuteDetector
      \<lparr>getSecond = 5, getMinute = 10, getHour = 3, getHour_true = 15, getDay = 20\<rparr>
      (schedulerInit
        \<lparr>getSecond = 5, getMinute = 10, getHour = 3, getHour_true = 15, getDay = 20\<rparr>
        (startup ''net'' ''key''))) \<and>
   \<not> fst (dayDetector
      \<lparr>getSecond = 5, getMinute = 10, getHour = 3, getHour_true = 15, getDay = 20\<rparr>
      (schedulerInit
        \<lparr>getSecond = 5, getMinute = 10, getHour = 3, getHour_true = 15, getDay = 20\<rparr>
        (startup ''net'' ''key''))) \<and>
   \<not> fst (dayDetector
      \<lparr>getSecond = 5, getMinute = 10, getHour = 3, getHour_true = 15, getDay = 20\<rparr>
      (snd (hourDetector
        \<lparr>getSecond = 5, getMinute = 10, getHour = 3, getHour_true = 15, getDay = 20\<rparr>
        (snd (minuteDetector
          \<lparr>getSecond = 5, getMinute = 10, getHour = 3, getHour_true = 15, getDay = 20\<rparr>
          (snd (secondDetector
            \<lparr>getSecond = 5, getMinute = 10, getHour = 3, getHour_true = 15, getDay = 20\<rparr>
            (schedulerInit
              \<lparr>getSecond = 5, getMinute = 10, getHour = 3, getHour_true = 15, getDay = 20\<rparr>
              (startup ''net'' ''key'')))))))))"
  using C8_no_fire_after_reset_when_unchanged
    [of "\<lparr>getSecond = 5, getMinute = 10, getHour = 3, getHour_true = 15, getDay = 20\<rparr>"
        "\<lparr>getSecond = 5, getMinute = 10, getHour = 3, getHour_true = 15, getDay = 20\<rparr>"
        "startup ''net'' ''key''"]
  by simp

text \<open>
  The hour detector is not part of the statement above.  \<open>schedulerInit\<close> stores the
  answer of \<open>rtc.getHour()\<close> and \<open>hourDetector\<close> compares the baseline with the answer
  of \<open>rtc.getHour(true)\<close>, so its call after a reset fires exactly when these two
  answers differ, also when both are given for the same instant of the clock.
\<close>

lemma hourDetector_after_schedulerInit:
  "fst (hourDetector r' (schedulerInit r g)) \<longleftrightarrow> getHour_true r' \<noteq> getHour r"
  by (simp add: hourDetector_result schedulerInit_result)

section \<open>Properties of the time-sync state machine\<close>

subsection \<open>One call\<close>

lemma ntpService_not_started:
  "ntpState g \<noteq> NTPSTATE_STARTED \<Longrightarrow> ntpService update epochTime r g = g"
  by (simp add: ntpService_def)

lemma ntpService_success:
  "ntpState g = NTPSTATE_STARTED \<Longrightarrow>
   ntpService True epochTime r g =
     g\<lparr>ntpState := NTPSTATE_COMPLETE, ntpAttempts := ntpAttempts g + 1, ntpSuccess := True,
       lastDay := getDay r, lastHr := getHour r, lastMin := getMinute r,
       lastSec := getSecond r,
       calls := calls g @
         [TimeClient_update, TimeClient_getEpochTime, Rtc_setTime epochTime,
          Rtc_getTime ''NTP->RTC=%Y/%m/%d,%H:%M:%S'', Serial_println_result,
          Rtc_getSecond, Rtc_getMinute, Rtc_getHour, Rtc_getDay]\<rparr>"
  by (simp add: ntpService_def schedulerInit_def issue_def Let_def)

lemma ntpService_wait:
  "ntpState g = NTPSTATE_STARTED \<Longrightarrow> ntpWaitSecondCounter g + 1 < NTPWAIT_MAX \<Longrightarrow>
   ntpService False epochTime r g =
     g\<lparr>ntpWaitSecondCounter := ntpWaitSecondCounter g + 1,
       calls := calls g @ [TimeClient_update, TimeClient_forceUpdate]\<rparr>"
  by (simp add: ntpService_def issue_def Let_def)

lemma ntpService_timeout:
  "ntpState g = NTPSTATE_STARTED \<Longrightarrow> NTPWAIT_MAX \<le> ntpWaitSecondCounter g + 1 \<Longrightarrow>
   ntpService False epochTime r g =
     g\<lparr>ntpState := NTPSTATE_TIMEOUTERROR,
       ntpWaitSecondCounter := ntpWaitSecondCounter g + 1, ntpSuccess := False,
       calls := calls g @ [TimeClient_update, TimeClient_forceUpdate]\<rparr>"
  by (simp add: ntpService_def issue_def Let_def)

subsection \<open>The range of the wait counter\<close>

lemma ntp_range_ntpInit: "ntp_range (ntpInit g)"
  by (simp add: ntp_range_def ntpInit_def)

lemma ntp_range_ntpStart: "ntp_range (ntpStart g)"
  by (simp add: ntp_range_def ntpStart_def issue_def Let_def)

lemma ntp_range_startup: "ntp_range (startup ssid pwd)"
  by (simp add: ntp_range_def startup_def)

lemma ntp_range_ntpService:
  assumes "ntp_range g"
  shows "ntp_range (ntpService update epochTime r g)"
proof (cases "ntpState g = NTPSTATE_STARTED")
  case False
  with assms show ?thesis by (simp add: ntpService_not_started)
next
  case started: True
  show ?thesis
  proof (cases update)
    case True
    with started assms show ?thesis
      by (simp add: ntpService_success ntp_range_def)
  next
    case False
    with started assms show ?thesis
      by (cases "ntpWaitSecondCounter g + 1 < NTPWAIT_MAX")
        (simp_all add: ntpService_wait ntpService_timeout ntp_range_def)
  qed
qed

subsection \<open>Consecutive calls\<close>

lemma ntpServiceLoop_append:
  "ntpServiceLoop (is @ js) g = ntpServiceLoop js (ntpServiceLoop is g)"
  by (induction "is" arbitrary: g) simp_all

lemma ntpServiceLoop_not_started:
  "ntpState g \<noteq> NTPSTATE_STARTED \<Longrightarrow> ntpServiceLoop is g = g"
  by (induction "is") (simp_all add: ntpService_not_started)

lemma started_loop:
  "ntpState g = NTPSTATE_STARTED \<Longrightarrow> \<forall>i\<in>set is. \<not> fst i \<Longrightarrow>
   ntpWaitSecondCounter g + int (length is) < NTPWAIT_MAX \<Longrightarrow>
   ntpServiceLoop is g =
     g\<lparr>ntpWaitSecondCounter := ntpWaitSecondCounter g + int (length is),
       calls := calls g @
         concat (replicate (length is) [TimeClient_update, TimeClient_forceUpdate])\<rparr>"
proof (induction "is" arbitrary: g)
  case Nil
  then show ?case by simp
next
  case (Cons i "is")
  let ?g = "g\<lparr>ntpWaitSecondCounter := ntpWaitSecondCounter g + 1,
              calls := calls g @ [TimeClient_update, TimeClient_forceUpdate]\<rparr>"
  from Cons.prems have step: "ntpService (fst i) (fst (snd i)) (snd (snd i)) g = ?g"
    using ntpService_wait [of g "fst (snd i)" "snd (snd i)"] by simp
  have "ntpServiceLoop is ?g =
      ?g\<lparr>ntpWaitSecondCounter := ntpWaitSecondCounter ?g + int (length is),
        calls := calls ?g @
          concat (replicate (length is) [TimeClient_update, TimeClient_forceUpdate])\<rparr>"
    using Cons.prems by (intro Cons.IH) simp_all
  with step show ?case by simp
qed

subsection \<open>A successful sync\<close>

text \<open>
  Claim C2.  In STARTED, a call in which \<open>timeClient.update()\<close> answers true and
  \<open>timeClient.getEpochTime()\<close> answers \<open>epochTime\<close>: the calls made on the
  collaborators are, in this order and nothing else, the update, the epoch read,
  \<open>rtc.setTime(epochTime)\<close>, the log line, and the four clock reads of one
  \<open>schedulerInit\<close>, whose answers become the baselines; \<open>ntpSuccess\<close> is true,
  \<open>ntpAttempts\<close> is one more (as a 32-bit value, and as a number while below the largest
  \<open>int\<close>), the state is COMPLETE; the wait counter and the connectivity variables are
  untouched.  The whole result is \<open>schedulerInit\<close>, applied once to the state after the
  clock was set, with the three time-sync variables updated.
\<close>

theorem C2_sync_success:
  assumes "ntpState g = NTPSTATE_STARTED"
  shows "calls (ntpService True epochTime r g) =
           calls g @
             [TimeClient_update, TimeClient_getEpochTime, Rtc_setTime epochTime,
              Rtc_getTime ''NTP->RTC=%Y/%m/%d,%H:%M:%S'', Serial_println_result,
              Rtc_getSecond, Rtc_getMinute, Rtc_getHour, Rtc_getDay] \<and>
         ntpService True epochTime r g =
           (schedulerInit r
             (g\<lparr>calls := calls g @
                  [TimeClient_update, TimeClient_getEpochTime, Rtc_setTime epochTime,
                   Rtc_getTime ''NTP->RTC=%Y/%m/%d,%H:%M:%S'', Serial_println_result]\<rparr>))
           \<lparr>ntpSuccess := True, ntpAttempts := ntpAttempts g + 1,
            ntpState := NTPSTATE_COMPLETE\<rparr> \<and>
         lastSec (ntpService True epochTime r g) = getSecond r \<and>
         lastMin (ntpService True epochTime r g) = getMinute r \<and>
         lastHr (ntpService True epochTime r g) = getHour r \<and>
         lastDay (ntpService True epochTime r g) = getDay r \<and>
         ntpSuccess (ntpService True epochTime r g) \<and>
         ntpAttempts (ntpService True epochTime r g) = ntpAttempts g + 1 \<and>
         (sint (ntpAttempts g) < 2147483647 \<longrightarrow>
            sint (ntpAttempts (ntpService True epochTime r g)) = sint (ntpAttempts g) + 1) \<and>
         ntpState (ntpService True epochTime r g) = NTPSTATE_COMPLETE \<and>
         ntpWaitSecondCounter (ntpService True epochTime r g) = ntpWaitSecondCounter g \<and>
         wifiState (ntpService True epochTime r g) = wifiState g \<and>
         wifiWaitSecondCounter (ntpService True epochTime r g) = wifiWaitSecondCounter g"
proof -
  have "sint (ntpAttempts g + 1) = sint (ntpAttempts g) + 1"
    if "sint (ntpAttempts g) < 2147483647"
  proof -
    have "- (2 ^ 31) \<le> sint (ntpAttempts g)"
      using sint_ge [of "ntpAttempts g"] by simp
    with that show ?thesis
      by (simp add: sint_word_ariths signed_take_bit_int_eq_self)
  qed
  with assms show ?thesis
    by (simp add: ntpService_success schedulerInit_result)
qed

theorem C2_sync_success_witness:
  "ntpState (ntpStart (startup ''net'' ''key'')) = NTPSTATE_STARTED \<and>
   sint (ntpAttempts (ntpStart (startup ''net'' ''key''))) < 2147483647 \<and>
   calls (ntpService True 1700000000
      \<lparr>getSecond = 20, getMinute = 13, getHour = 10, getHour_true = 22, getDay = 14\<rparr>
      (ntpStart (startup ''net'' ''key''))) =
     [TimeClient_begin, TimeClient_setTimeOffset 0,
      TimeClient_update, TimeClient_getEpochTime, Rtc_setTime 1700000000,
      Rtc_getTime ''NTP->RTC=%Y/%m/%d,%H:%M:%S'', Serial_println_result,
      Rtc_getSecond, Rtc_getMinute, Rtc_getHour, Rtc_getDay] \<and>
   ntpSuccess (ntpService True 1700000000
      \<lparr>getSecond = 20, getMinute = 13, getHour = 10, getHour_true = 22, getDay = 14\<rparr>
      (ntpStart (startup ''net'' ''key''))) \<and>
   sint (ntpAttempts (ntpService True 1700000000
      \<lparr>getSecond = 20, getMinute = 13, getHour = 10, getHour_true = 22, getDay = 14\<rparr>
      (ntpStart (startup ''net'' ''key'')))) = 1 \<and>
   ntpState (ntpService True 1700000000
      \<lparr>getSecond = 20, getMinute = 13, getHour = 10, getHour_true = 22, getDay = 14\<rparr>
      (ntpStart (startup ''net'' ''key''))) = NTPSTATE_COMPLETE \<and>
   lastHr (ntpService True 1700000000
      \<lparr>getSecond = 20, getMinute = 13, getHour = 10, getHour_true = 22, getDay = 14\<rparr>
      (ntpStart (startup ''net'' ''key''))) = 10"
  using C2_sync_success
    [of "ntpStart (startup ''net'' ''key'')" 1700000000
        "\<lparr>getSecond = 20, getMinute = 13, getHour = 10, getHour_true = 22, getDay = 14\<rparr>"]
  by (simp add: ntpStart_def startup_def issue_def Let_def schedulerInit_result)

subsection \<open>A sync that times out\<close>

text \<open>
  Claim C5.  Start in STARTED with the wait counter at 0, as \<open>ntpStart\<close> leaves it, and
  let \<open>timeClient.update()\<close> answer false in every call.  After fewer than 30 calls the
  state is still STARTED; after 30 calls it is TIMEOUTERROR with \<open>ntpSuccess\<close> false and
  \<open>ntpAttempts\<close> as it was at the start; and from there any further calls, whatever the
  time client would answer, change no variable and make no call on a collaborator.
\<close>

theorem C5_sync_timeout:
  assumes "ntpState g = NTPSTATE_STARTED" and "ntpWaitSecondCounter g = 0"
    and "\<forall>i\<in>set is. \<not> fst i"
  shows "(length is < 30 \<longrightarrow>
            ntpState (ntpServiceLoop is g) = NTPSTATE_STARTED \<and>
            ntpAttempts (ntpServiceLoop is g) = ntpAttempts g) \<and>
         (length is = 30 \<longrightarrow>
            ntpState (ntpServiceLoop is g) = NTPSTATE_TIMEOUTERROR \<and>
            \<not> ntpSuccess (ntpServiceLoop is g) \<and>
            ntpAttempts (ntpServiceLoop is g) = ntpAttempts g \<and>
            (\<forall>js. ntpServiceLoop js (ntpServiceLoop is g) = ntpServiceLoop is g))"
proof (intro conjI impI)
  assume "length is < 30"
  with assms have "ntpServiceLoop is g =
      g\<lparr>ntpWaitSecondCounter := ntpWaitSecondCounter g + int (length is),
        calls := calls g @
          concat (replicate (length is) [TimeClient_update, TimeClient_forceUpdate])\<rparr>"
    by (intro started_loop) simp_all
  with assms(1) show "ntpState (ntpServiceLoop is g) = NTPSTATE_STARTED"
    and "ntpAttempts (ntpServiceLoop is g) = ntpAttempts g"
    by simp_all
next
  assume n: "length is = 30"
  then have ne: "is \<noteq> []" by auto
  define g29 where "g29 = ntpServiceLoop (butlast is) g"
  have "\<forall>i\<in>set (butlast is). \<not> fst i"
    using assms(3) by (meson in_set_butlastD)
  with assms(1,2) n have "g29 =
      g\<lparr>ntpWaitSecondCounter := ntpWaitSecondCounter g + int (length (butlast is)),
        calls := calls g @
          concat (replicate (length (butlast is)) [TimeClient_update, TimeClient_forceUpdate])\<rparr>"
    unfolding g29_def by (intro started_loop) simp_all
  with assms(1,2) n have g29: "ntpState g29 = NTPSTATE_STARTED"
    "ntpWaitSecondCounter g29 = 29" "ntpAttempts g29 = ntpAttempts g"
    by simp_all
  have "\<not> fst (last is)"
    using assms(3) ne by simp
  moreover have "ntpServiceLoop is g =
      ntpService (fst (last is)) (fst (snd (last is))) (snd (snd (last is))) g29"
    using ne ntpServiceLoop_append [of "butlast is" "[last is]" g] by (simp add: g29_def)
  ultimately have res: "ntpServiceLoop is g =
      g29\<lparr>ntpState := NTPSTATE_TIMEOUTERROR,
          ntpWaitSecondCounter := ntpWaitSecondCounter g29 + 1, ntpSuccess := False,
          calls := calls g29 @ [TimeClient_update, TimeClient_forceUpdate]\<rparr>"
    using g29 ntpService_timeout [of g29 "fst (snd (last is))" "snd (snd (last is))"] by simp
  show st: "ntpState (ntpServiceLoop is g) = NTPSTATE_TIMEOUTERROR"
    and "\<not> ntpSuccess (ntpServiceLoop is g)"
    and "ntpAttempts (ntpServiceLoop is g) = ntpAttempts g"
    using res g29 by simp_all
  show "\<forall>js. ntpServiceLoop js (ntpServiceLoop is g) = ntpServiceLoop is g"
    using st by (simp add: ntpServiceLoop_not_started)
qed

theorem C5_sync_timeout_witness:
  "ntpState (ntpStart (startup ''net'' ''key'')) = NTPSTATE_STARTED \<and>
   ntpWaitSecondCounter (ntpStart (startup ''net'' ''key'')) = 0 \<and>
   ntpState (ntpServiceLoop (replicate 29
       (False, 0, \<lparr>getSecond = 0, getMinute = 0, getHour = 12, getHour_true = 0, getDay = 1\<rparr>))
     (ntpStart (startup ''net'' ''key''))) = NTPSTATE_STARTED \<and>
   ntpState (ntpServiceLoop (replicate 30
       (False, 0, \<lparr>getSecond = 0, getMinute = 0, getHour = 12, getHour_true = 0, getDay = 1\<rparr>))
     (ntpStart (startup ''net'' ''key''))) = NTPSTATE_TIMEOUTERROR \<and>
   \<not> ntpSuccess (ntpServiceLoop (replicate 30
       (False, 0, \<lparr>getSecond = 0, getMinute = 0, getHour = 12, getHour_true = 0, getDay = 1\<rparr>))
     (ntpStart (startup ''net'' ''key''))) \<and>
   ntpAttempts (ntpServiceLoop (replicate 30
       (False, 0, \<lparr>getSecond = 0, getMinute = 0, getHour = 12, getHour_true = 0, getDay = 1\<rparr>))
     (ntpStart (startup ''net'' ''key''))) = 0 \<and>
   ntpServiceLoop
     [(True, 1700000000,
       \<lparr>getSecond = 0, getMinute = 0, getHour = 12, getHour_true = 0, getDay = 1\<rparr>)]
     (ntpServiceLoop (replicate 30
       (False, 0, \<lparr>getSecond = 0, getMinute = 0, getHour = 12, getHour_true = 0, getDay = 1\<rparr>))
     (ntpStart (startup ''net'' ''key''))) =
   ntpServiceLoop (replicate 30
       (False, 0, \<lparr>getSecond = 0, getMinute = 0, getHour = 12, getHour_true = 0, getDay = 1\<rparr>))
     (ntpStart (startup ''net'' ''key''))"
  using C5_sync_timeout
    [of "ntpStart (startup ''net'' ''key'')"
        "replicate 29
          (False, 0, \<lparr>getSecond = 0, getMinute = 0, getHour = 12, getHour_true = 0, getDay = 1\<rparr>)"]
    C5_sync_timeout
    [of "ntpStart (startup ''net'' ''key'')"
        "replicate 30
          (False, 0, \<lparr>getSecond = 0, getMinute = 0, getHour = 12, getHour_true = 0, getDay = 1\<rparr>)"]
  by (simp add: ntpStart_def startup_def issue_def Let_def)

end
